theory Spec2Isabelle
  imports Complex_Main
begin

section \<open>Python text primitives\<close>

text \<open>
  Python's \<^verbatim>\<open>str\<close> is modelled by \<^typ>\<open>string\<close>: a list of characters, each a code
  point below 256.  On that range the functions below follow the built-ins they are
  named after.  Lengths are character counts, as \<^verbatim>\<open>len\<close> gives them.
\<close>

definition is_space :: "char \<Rightarrow> bool" where
  \<comment> \<open>\<^verbatim>\<open>str.isspace\<close> on one character; also what \<^verbatim>\<open>\s\<close> matches in a \<^verbatim>\<open>str\<close> pattern.\<close>
  "is_space c \<longleftrightarrow>
     c \<in> set [CHR 0x09, CHR 0x0A, CHR 0x0B, CHR 0x0C, CHR 0x0D,
               CHR 0x1C, CHR 0x1D, CHR 0x1E, CHR 0x1F, CHR 0x20, CHR 0x85, CHR 0xA0]"

definition lower_char :: "char \<Rightarrow> char" where
  "lower_char c =
     (let n = (of_char c :: nat)
      in if (65 \<le> n \<and> n \<le> 90) \<or> (192 \<le> n \<and> n \<le> 222 \<and> n \<noteq> 215)
         then char_of (n + 32) else c)"

definition lower :: "string \<Rightarrow> string" where
  \<comment> \<open>\<^verbatim>\<open>str.lower()\<close>\<close>
  "lower s = map lower_char s"

definition strip_chars :: "(char \<Rightarrow> bool) \<Rightarrow> string \<Rightarrow> string" where
  "strip_chars P s = rev (dropWhile P (rev (dropWhile P s)))"

definition strip :: "string \<Rightarrow> string" where
  \<comment> \<open>\<^verbatim>\<open>str.strip()\<close>\<close>
  "strip s = strip_chars is_space s"

fun split_where :: "(char \<Rightarrow> bool) \<Rightarrow> string \<Rightarrow> string list" where
  \<comment> \<open>splitting at every single character that satisfies \<open>P\<close>; empty pieces are kept,
      and the result is never empty (\<^verbatim>\<open>str.split(sep)\<close> for a one-character \<^verbatim>\<open>sep\<close>,
      \<^verbatim>\<open>re.split\<close> for a character class)\<close>
  "split_where P [] = [[]]"
| "split_where P (c # cs) =
     (if P c then [] # split_where P cs
      else (case split_where P cs of
              w # ws \<Rightarrow> (c # w) # ws
            | [] \<Rightarrow> [[c]]))"

definition contains :: "string \<Rightarrow> string \<Rightarrow> bool" where
  \<comment> \<open>\<^verbatim>\<open>sub in s\<close>\<close>
  "contains sub s \<longleftrightarrow> list_ex (\<lambda>t. take (length sub) t = sub) (s # map (\<lambda>i. drop i s) [1..<Suc (length s)])"

fun split_words :: "string \<Rightarrow> string list" where
  \<comment> \<open>\<^verbatim>\<open>str.split()\<close> without an argument: the maximal runs of non-whitespace\<close>
  "split_words [] = []"
| "split_words (c # cs) =
     (if is_space c then split_words cs
      else (case cs of
              [] \<Rightarrow> [[c]]
            | d # _ \<Rightarrow>
                if is_space d then [c] # split_words cs
                else (case split_words cs of
                        w # ws \<Rightarrow> (c # w) # ws
                      | [] \<Rightarrow> [[c]])))"

fun join_space :: "string list \<Rightarrow> string" where
  \<comment> \<open>\<^verbatim>\<open>' '.join(xs)\<close>\<close>
  "join_space [] = []"
| "join_space [x] = x"
| "join_space (x # y # ys) = x @ CHR '' '' # join_space (y # ys)"

definition slice_from :: "int \<Rightarrow> 'a list \<Rightarrow> 'a list" where
  \<comment> \<open>\<^verbatim>\<open>xs[i:]\<close>: a negative \<open>i\<close> counts from the end and is clipped at the start\<close>
  "slice_from i xs =
     (if 0 \<le> i then drop (nat i) xs
      else drop (nat (int (length xs) + i)) xs)"

definition digit_char :: "nat \<Rightarrow> char" where
  "digit_char d = char_of (48 + d)"

fun str_nat :: "nat \<Rightarrow> string" where
  \<comment> \<open>\<^verbatim>\<open>str(n)\<close> for a non-negative integer\<close>
  "str_nat n = (if n < 10 then [digit_char n] else str_nat (n div 10) @ [digit_char (n mod 10)])"

declare str_nat.simps [simp del]

section \<open>Segmentation: \<^verbatim>\<open>embeddings.py\<close>\<close>

subsection \<open>Data\<close>

record CleanedContent =
  title :: string
  content_text :: string      \<comment> \<open>field \<^verbatim>\<open>text\<close>\<close>
  word_count :: int
  source_email_id :: string
  source_subject :: string
  source_sender :: string
  source_date :: string

record TextChunk =
  chunk_id :: string            \<comment> \<open>field \<^verbatim>\<open>id\<close>\<close>
  chunk_text :: string          \<comment> \<open>field \<^verbatim>\<open>text\<close>\<close>
  embedding :: "rat list option"
  chunk_source_email_id :: string
  chunk_source_title :: string
  chunk_source_sender :: string
  chunk_source_date :: string
  chunk_index :: nat
  total_chunks :: nat

text \<open>The two module constants of \<^verbatim>\<open>config.py\<close> that the chunker reads; they are parsed
  from the environment when the module is loaded, so they are parameters here.\<close>

record config =
  CHUNK_SIZE :: int
  CHUNK_OVERLAP :: int

record TextChunker =
  chunk_size :: int
  overlap :: int

datatype py_exception = PyException string

subsection \<open>\<^verbatim>\<open>TextChunker.__init__\<close>\<close>

definition or_default :: "int option \<Rightarrow> int \<Rightarrow> int" where
  \<comment> \<open>\<^verbatim>\<open>x or d\<close> for an optional integer: \<^verbatim>\<open>None\<close> and \<^verbatim>\<open>0\<close> are falsy\<close>
  "or_default x d = (case x of None \<Rightarrow> d | Some n \<Rightarrow> if n = 0 then d else n)"

definition TextChunker_init :: "config \<Rightarrow> int option \<Rightarrow> int option \<Rightarrow> py_exception + TextChunker" where
  \<comment> \<open>the body has two assignments and no \<^verbatim>\<open>raise\<close>\<close>
  "TextChunker_init cfg chunk_size_arg overlap_arg =
     Inr \<lparr>chunk_size = or_default chunk_size_arg (CHUNK_SIZE cfg),
          overlap = or_default overlap_arg (CHUNK_OVERLAP cfg)\<rparr>"

subsection \<open>\<^verbatim>\<open>TextChunker._split_into_sentences\<close>\<close>

definition is_terminal :: "char \<Rightarrow> bool" where
  "is_terminal c \<longleftrightarrow> c = CHR ''.'' \<or> c = CHR ''!'' \<or> c = CHR ''?''"

function split_after_terminal :: "bool \<Rightarrow> string \<Rightarrow> string list" where
  \<comment> \<open>\<^verbatim>\<open>re.split(r'(?<=[.!?])\s+', text)\<close>: a separator is a maximal run of whitespace
      that directly follows one of \<^verbatim>\<open>.!?\<close>.  The flag says whether the character before
      the current position is such a terminal.\<close>
  "split_after_terminal p [] = [[]]"
| "split_after_terminal p (c # cs) =
     (if p \<and> is_space c then [] # split_after_terminal False (dropWhile is_space cs)
      else (case split_after_terminal (is_terminal c) cs of
              w # ws \<Rightarrow> (c # w) # ws
            | [] \<Rightarrow> [[c]]))"
  by pat_completeness auto
termination
  by (relation "measure (\<lambda>(p, s). length s)")
     (auto simp: less_Suc_eq_le length_dropWhile_le)

fun split_paragraphs :: "string \<Rightarrow> string list" where
  \<comment> \<open>\<^verbatim>\<open>s.split('\n\n')\<close>: occurrences are taken from the left and do not overlap\<close>
  "split_paragraphs [] = [[]]"
| "split_paragraphs [a] = [[a]]"
| "split_paragraphs (a # b # rest) =
     (if a = CHR 0x0A \<and> b = CHR 0x0A then [] # split_paragraphs rest
      else (case split_paragraphs (b # rest) of
              w # ws \<Rightarrow> (a # w) # ws
            | [] \<Rightarrow> [[a]]))"

definition split_into_sentences :: "string \<Rightarrow> string list" where
  "split_into_sentences txt =
     (let sentences = split_after_terminal False txt;
          final_sentences =
            concat (map (\<lambda>sentence.
                      if contains [CHR 0x0A, CHR 0x0A] sentence
                      then split_paragraphs sentence
                      else [sentence]) sentences)
      in map strip (filter (\<lambda>s. strip s \<noteq> []) final_sentences))"

subsection \<open>\<^verbatim>\<open>TextChunker.chunk\<close>\<close>

text \<open>The loop state is \<open>(chunks, current_chunk, current_length)\<close>; one sentence is
  consumed by each step.\<close>

type_synonym chunk_state = "string list \<times> string list \<times> int"

definition chunk_step :: "TextChunker \<Rightarrow> chunk_state \<Rightarrow> string \<Rightarrow> chunk_state" where
  "chunk_step self st sentence =
     (case st of (chunks, current_chunk, current_length) \<Rightarrow>
        let sentence_length = int (length sentence);
            st' =
              (if current_length + sentence_length > chunk_size self \<and> current_chunk \<noteq> []
               then
                 let chunk_txt = join_space current_chunk;
                     overlap_text =
                       (if length current_chunk \<ge> 2
                        then join_space (slice_from (- 2) current_chunk) else []);
                     overlap_text =
                       (if int (length overlap_text) > overlap self
                        then slice_from (- overlap self) overlap_text else overlap_text)
                 in (chunks @ [chunk_txt],
                     (if overlap_text \<noteq> [] then [overlap_text] else []),
                     int (length overlap_text))
               else (chunks, current_chunk, current_length))
        in (case st' of (chunks, current_chunk, current_length) \<Rightarrow>
              (chunks, current_chunk @ [sentence], current_length + sentence_length + 1)))"

definition chunk_texts :: "TextChunker \<Rightarrow> string list \<Rightarrow> string list" where
  \<comment> \<open>the loop over the sentences and the flush of the last chunk\<close>
  "chunk_texts self sentences =
     (case foldl (chunk_step self) ([], [], 0) sentences of
        (chunks, current_chunk, current_length) \<Rightarrow>
          if current_chunk \<noteq> [] then chunks @ [join_space current_chunk] else chunks)"

definition make_chunk :: "CleanedContent \<Rightarrow> nat \<Rightarrow> nat \<Rightarrow> string \<Rightarrow> TextChunk" where
  "make_chunk content total_n i txt =
     \<lparr>chunk_id = source_email_id content @ ''_'' @ str_nat i,
      chunk_text = txt,
      embedding = None,
      chunk_source_email_id = source_email_id content,
      chunk_source_title = title content,
      chunk_source_sender = source_sender content,
      chunk_source_date = source_date content,
      chunk_index = i,
      total_chunks = total_n\<rparr>"

definition chunk :: "TextChunker \<Rightarrow> CleanedContent \<Rightarrow> TextChunk list" where
  "chunk self content =
     (let txt = content_text content
      in if int (length txt) \<le> chunk_size self
         then [make_chunk content 1 0 txt]
         else
           let sentences = split_into_sentences txt;
               chunks = chunk_texts self sentences;
               total_n = length chunks
           in map (\<lambda>(i, chunk_txt). make_chunk content total_n i (strip chunk_txt))
                  (enumerate 0 chunks))"

section \<open>Python floats\<close>

text \<open>
  A finite Python float is a rational number that the binary64 format represents.  A
  decimal literal denotes the nearest such number, and every arithmetic operation returns
  the exact result rounded to the nearest one, ties to the even significand.  The scores
  of the detector stay far inside the finite range, so overflow is not modelled.
\<close>

fun exponent_of :: "nat \<Rightarrow> rat \<Rightarrow> int" where
  \<comment> \<open>the \<open>e\<close> with \<open>2 ^ e \<le> x < 2 ^ (e + 1)\<close> for a positive \<open>x\<close>, found in at most as
      many steps as the first argument allows\<close>
  "exponent_of 0 x = 0"
| "exponent_of (Suc n) x =
     (if 2 \<le> x then exponent_of n (x / 2) + 1
      else if x < 1 then exponent_of n (x * 2) - 1
      else 0)"

definition pow2 :: "int \<Rightarrow> rat" where
  "pow2 e = (if 0 \<le> e then 2 ^ nat e else 1 / 2 ^ nat (- e))"

definition round_half_even :: "rat \<Rightarrow> int" where
  "round_half_even m =
     (let f = \<lfloor>m\<rfloor>; d = m - of_int f
      in if d < 1/2 then f else if 1/2 < d then f + 1 else if even f then f else f + 1)"

definition to_double :: "rat \<Rightarrow> rat" where
  \<comment> \<open>rounding to binary64: 53 significant bits, exponents from \<open>-1022\<close> (below it the
      spacing of the subnormal numbers)\<close>
  "to_double x =
     (if x = 0 then 0
      else let e = max (exponent_of 1100 \<bar>x\<bar>) (- 1022);
               q = pow2 (e - 52)
           in of_int (round_half_even (x / q)) * q)"

definition fadd :: "rat \<Rightarrow> rat \<Rightarrow> rat" where
  "fadd a b = to_double (a + b)"

definition fsub :: "rat \<Rightarrow> rat \<Rightarrow> rat" where
  "fsub a b = to_double (a - b)"

definition fmul :: "rat \<Rightarrow> rat \<Rightarrow> rat" where
  "fmul a b = to_double (a * b)"

text \<open>What a threshold of the detector can hold: the constructor stores its arguments
  unchecked.  \<open>Float r\<close> is a finite number (a float, or an integer), \<open>NaN\<close>, \<open>PosInf\<close> and
  \<open>NegInf\<close> are the three other floats, and \<open>Object ty\<close> is a value of the type named
  \<open>ty\<close> that has no order with floats (\<^verbatim>\<open>None\<close> is \<open>Object ''NoneType''\<close>).\<close>

datatype py_value = Float rat | NaN | PosInf | NegInf | Object string

abbreviation (input) quote :: string where
  "quote \<equiv> [CHR 0x27]"

definition float_ge :: "rat \<Rightarrow> py_value \<Rightarrow> py_exception + bool" where
  \<comment> \<open>\<^verbatim>\<open>x >= t\<close> for a finite float \<open>x\<close>: a comparison with NaN is false, a comparison
      with an unordered value raises \<^verbatim>\<open>TypeError\<close>\<close>
  "float_ge x t =
     (case t of
        Float r \<Rightarrow> Inr (r \<le> x)
      | NaN \<Rightarrow> Inr False
      | PosInf \<Rightarrow> Inr False
      | NegInf \<Rightarrow> Inr True
      | Object ty \<Rightarrow>
          Inl (PyException (quote @ ''>='' @ quote @ '' not supported between instances of ''
                            @ quote @ ''float'' @ quote @ '' and '' @ quote @ ty @ quote)))"

section \<open>Classification: \<^verbatim>\<open>newsletter_detector.py\<close>\<close>

subsection \<open>Data\<close>

text \<open>The dataclass declares \<^verbatim>\<open>headers: dict\<close>; \<^verbatim>\<open>_has_unsubscribe_header\<close> accepts a
  list of dicts or strings, a dict, or a string, and those are the shapes kept here.  A
  dict is an association list read with \<^const>\<open>map_of\<close>.\<close>

datatype header_item =
    ItemDict "(string \<times> string) list"
  | ItemStr string
  | ItemOther

datatype headers_value =
    HeadersNone
  | HeadersList "header_item list"
  | HeadersDict "(string \<times> string) list"
  | HeadersStr string

text \<open>The four text fields the detector reads are declared \<^verbatim>\<open>str\<close>, and the detector
  reads each of them as \<^verbatim>\<open>str(getattr(email, f, '') or '')\<close> inside a \<^verbatim>\<open>try\<close>.  So a
  field is a string (\<open>Str\<close>), or \<^verbatim>\<open>None\<close> or absent (\<open>NoneValue\<close>, read as the empty
  string), or, in a malformed message, an object whose conversion to \<^verbatim>\<open>str\<close> raises
  (\<open>Unreadable\<close>).\<close>

datatype py_field = Str string | NoneValue | Unreadable py_exception

definition field_str :: "py_field \<Rightarrow> py_exception + string" where
  \<comment> \<open>\<^verbatim>\<open>str(getattr(email, f, '') or '')\<close>\<close>
  "field_str f = (case f of Str s \<Rightarrow> Inr s | NoneValue \<Rightarrow> Inr [] | Unreadable e \<Rightarrow> Inl e)"

record EmailMessage =
  msg_id :: string              \<comment> \<open>field \<^verbatim>\<open>id\<close>\<close>
  thread_id :: string
  subject :: py_field
  sender :: py_field
  sender_email :: py_field
  date :: int                   \<comment> \<open>a \<^verbatim>\<open>datetime\<close>; the detector never reads it\<close>
  snippet :: string
  body_html :: string
  body_text :: py_field
  headers :: headers_value
  labels :: "string list"

record DetectionResult =
  is_newsletter :: bool
  is_promotional :: bool
  is_worth_reading :: bool
  newsletter_confidence :: rat
  promotional_score :: rat
  quality_score :: rat
  reasons :: "string list"

record NewsletterDetector =
  newsletter_threshold :: py_value
  promotional_threshold :: py_value
  quality_threshold :: py_value

definition NewsletterDetector_init ::
  "py_value option \<Rightarrow> py_value option \<Rightarrow> py_value option \<Rightarrow> NewsletterDetector" where
  \<comment> \<open>the keyword defaults of \<^verbatim>\<open>__init__\<close>: 0.4, 0.5, 0.3; an argument is stored as it
      is given\<close>
  "NewsletterDetector_init nt pt qt =
     \<lparr>newsletter_threshold = (case nt of None \<Rightarrow> Float (to_double (4/10)) | Some x \<Rightarrow> x),
      promotional_threshold = (case pt of None \<Rightarrow> Float (to_double (5/10)) | Some x \<Rightarrow> x),
      quality_threshold = (case qt of None \<Rightarrow> Float (to_double (3/10)) | Some x \<Rightarrow> x)\<rparr>"

subsection \<open>The tables set up by \<^verbatim>\<open>__init__\<close>\<close>

text \<open>The sets and lists of \<^verbatim>\<open>__init__\<close>, in source order.  A pattern is the text of a
  Python regular expression; \<open>bsl\<close> is the backslash, which a string literal here cannot
  hold.  The two characters above 255 that occur in patterns, the em dash and the euro
  sign, are spelt with the escapes \<^verbatim>\<open>\u2014\<close> and \<^verbatim>\<open>\u20ac\<close>, which denote the same
  pattern.\<close>

abbreviation (input) bsl :: string where
  "bsl \<equiv> [CHR 0x5C]"

definition newsletter_domains :: "string list" where
  "newsletter_domains =
     [''substack.com'', ''beehiiv.com'', ''mailchimp.com'', ''convertkit.com'',
      ''buttondown.email'', ''revue.co'', ''ghost.io'', ''campaignmonitor.com'',
      ''mailerlite.com'', ''sendinblue.com'', ''getrevue.co'', ''emailoctopus.com'',
      ''benchmarkemail.com'', ''moosend.com'', ''drip.com'', ''klaviyo.com'',
      ''constantcontact.com'', ''hubspot.com'', ''medium.com'', ''linkedin.com'',
      ''morningbrew.com'', ''axios.com'', ''thenewsette.com'', ''thehustle.co'']"

definition newsletter_sender_patterns :: "string list" where
  "newsletter_sender_patterns =
     [''newsletter'', ''digest'', ''weekly'', ''daily'', ''updates?'', ''bulletin'',
      ''dispatch'', ''brief'', ''roundup'', ''recap'', ''summary'', ''edition'', ''insider'',
      ''report'', ''review'', ''bytes'']"

definition newsletter_subject_patterns :: "string list" where
  "newsletter_subject_patterns =
     [''issue'' @ bsl @ ''s*#?'' @ bsl @ ''d+'', ''edition'' @ bsl @ ''s*#?'' @ bsl @ ''d+'',
      ''vol'' @ bsl @ ''.?'' @ bsl @ ''s*'' @ bsl @ ''d+'',
      ''#'' @ bsl @ ''d+'' @ bsl @ ''s*[-:'' @ bsl @ ''u2014]'', ''weekly'', ''daily'',
      ''monthly'', ''digest'', ''roundup'', ''newsletter'', ''this'' @ bsl @ ''s+week'',
      ''top'' @ bsl @ ''s+'' @ bsl @ ''d+'', ''best'' @ bsl @ ''s+of'', ''highlights'']"

definition promotional_subject_patterns :: "string list" where
  "promotional_subject_patterns =
     [bsl @ ''d+%'' @ bsl @ ''s*off'', ''save'' @ bsl @ ''s+'' @ bsl @ ''$?'' @ bsl @ ''d+'',
      ''discount'', ''sale'' @ bsl @ ''b'', ''deal'' @ bsl @ ''b'', ''offer'' @ bsl @ ''b'',
      ''promo'' @ bsl @ ''b'', ''coupon'', ''voucher'', ''limited'' @ bsl @ ''s+time'',
      ''expires?'' @ bsl @ ''b'', ''ends'' @ bsl @ ''s+(today|soon|tonight)'',
      ''last'' @ bsl @ ''s+chance'', ''final'' @ bsl @ ''s+(hours?|days?)'', ''hurry'',
      ''don'' @ bsl @ [CHR 0x27] @ ''?t'' @ bsl @ ''s+miss'',
      ''act'' @ bsl @ ''s+(now|fast)'', ''today'' @ bsl @ ''s+only'',
      ''flash'' @ bsl @ ''s+sale'', ''clearance'', ''free'' @ bsl @ ''s+shipping'',
      ''exclusive'' @ bsl @ ''s+(offer|deal|access)'',
      ''special'' @ bsl @ ''s+(offer|deal|price)'',
      ''order'' @ bsl @ ''s+(confirmed?|shipped|delivered)'',
      ''shipping'' @ bsl @ ''s+(update|confirmation)'', ''tracking'',
      ''your'' @ bsl @ ''s+(order|package|delivery)'', ''invoice'', ''receipt'',
      ''payment'' @ bsl @ ''s+(received|confirmed)'', ''verify'' @ bsl @ ''s+(your|email)'',
      ''confirm'' @ bsl @ ''s+(your|email)'', ''password'' @ bsl @ ''s+(reset|changed)'',
      ''account'' @ bsl @ ''s+(update|alert)'', ''security'' @ bsl @ ''s+(alert|notice)'',
      ''login'' @ bsl @ ''s+(alert|notification)'',
      ''(new'' @ bsl @ ''s+)?(follower|like|comment|mention|reply)'',
      ''tagged'' @ bsl @ ''s+you'', ''connection'' @ bsl @ ''s+request'',
      ''friend'' @ bsl @ ''s+request'', ''reminder:'',
      ''meeting'' @ bsl @ ''s+(invite|reminder|update)'', ''survey'', ''feedback'',
      ''review'' @ bsl @ ''s+us'', ''rate'' @ bsl @ ''s+us'',
      ''we'' @ bsl @ ''s+miss'' @ bsl @ ''s+you'', ''come'' @ bsl @ ''s+back'',
      ''abandoned'' @ bsl @ ''s+cart'']"

definition promotional_content_patterns :: "string list" where
  "promotional_content_patterns =
     [''shop'' @ bsl @ ''s+now'', ''buy'' @ bsl @ ''s+now'', ''order'' @ bsl @ ''s+now'',
      ''click'' @ bsl @ ''s+here'', ''sign'' @ bsl @ ''s+up'' @ bsl @ ''s+now'',
      bsl @ ''$'' @ bsl @ ''d+('' @ bsl @ ''.'' @ bsl @ ''d{2})?'',
      [CHR 0xA3] @ bsl @ ''d+'', bsl @ ''u20ac'' @ bsl @ ''d+'',
      ''limited'' @ bsl @ ''s+(time|stock|availability)'',
      ''while'' @ bsl @ ''s+supplies'' @ bsl @ ''s+last'', ''selling'' @ bsl @ ''s+fast'']"

definition promotional_senders :: "string list" where
  "promotional_senders =
     [''noreply'', ''no-reply'', ''donotreply'', ''do-not-reply'', ''notifications'',
      ''notification'', ''alerts'', ''alert'', ''mailer'', ''marketing'', ''promo'',
      ''promotions'', ''deals'', ''offers'', ''sales'', ''store'', ''shop'', ''orders'',
      ''order'', ''shipping'', ''delivery'', ''support'', ''help'', ''info'', ''billing'',
      ''invoice'']"

definition quality_subject_patterns :: "string list" where
  "quality_subject_patterns =
     [''analysis'', ''insights?'', ''deep'' @ bsl @ ''s+dive'', ''breakdown'', ''explained'',
      ''how'' @ bsl @ ''s+to'', ''why'' @ bsl @ ''b'', ''guide'' @ bsl @ ''s+to'',
      ''lessons?'' @ bsl @ ''s+(from|learned)'', ''takeaways?'', ''industry'', ''market'',
      ''trends?'', ''forecast'', ''report'' @ bsl @ ''b'', ''research'', ''study'',
      ''findings'', ''startup'', ''venture'', ''funding'', ''investment'', ''technology'',
      ''innovation'', ''future'' @ bsl @ ''s+of'', ''opinion'', ''perspective'', ''essay'',
      ''commentary'', ''interview'', ''conversation'' @ bsl @ ''s+with'',
      ''reading'' @ bsl @ ''s+list'', ''must'' @ bsl @ ''s+read'', ''curated'']"

definition blacklisted_domains :: "string list" where
  "blacklisted_domains =
     [''amazon.com'', ''ebay.com'', ''walmart.com'', ''target.com'', ''doordash.com'',
      ''ubereats.com'', ''grubhub.com'', ''booking.com'', ''expedia.com'', ''airbnb.com'',
      ''uber.com'', ''lyft.com'', ''facebookmail.com'', ''twitter.com'', ''x.com'',
      ''instagram.com'', ''tiktok.com'', ''pinterest.com'', ''netflix.com'', ''spotify.com'',
      ''youtube.com'', ''paypal.com'', ''venmo.com'', ''cashapp.com'']"

definition whitelisted_domains :: "string list" where
  "whitelisted_domains =
     [''substack.com'', ''beehiiv.com'', ''buttondown.email'', ''ghost.io'',
      ''morningbrew.com'', ''axios.com'', ''thehustle.co'']"

definition price_pattern :: string where
  \<comment> \<open>the pattern searched in the subject at the end of \<^verbatim>\<open>_calculate_promotional_score\<close>\<close>
  "price_pattern =
     bsl @ ''$'' @ bsl @ ''d+|%'' @ bsl @ ''s*off|'' @ bsl @ ''bsale'' @ bsl @ ''b|'' @ bsl @ ''bdeal'' @ bsl @ ''b''"

subsection \<open>The regular-expression search\<close>

text \<open>\<^verbatim>\<open>re.search(pattern, text)\<close> belongs to the standard library, not to this program:
  it is a parameter of the model.  It either raises or says whether a match was found.\<close>

type_synonym re_search = "string \<Rightarrow> string \<Rightarrow> py_exception + bool"

definition no_match :: re_search where
  \<comment> \<open>a search that finds nothing: what \<^verbatim>\<open>re.search\<close> does on the empty text for every
      pattern above, since none of them matches the empty string\<close>
  "no_match p s = Inr False"


subsection \<open>Helpers of the detector\<close>

definition extract_domain :: "string \<Rightarrow> string" where
  "extract_domain email =
     (if email = [] then []
      else if CHR ''@'' \<in> set email
      then strip_chars (\<lambda>c. c = CHR ''>'') (lower (last (split_where (\<lambda>c. c = CHR ''@'') email)))
      else [])"

definition extract_sender_name :: "string \<Rightarrow> string" where
  "extract_sender_name sender' =
     (if sender' = [] then []
      else if CHR ''<'' \<in> set sender'
      then lower (strip (hd (split_where (\<lambda>c. c = CHR ''<'') sender')))
      else lower sender')"

definition check_patterns :: "re_search \<Rightarrow> string \<Rightarrow> string list \<Rightarrow> bool \<times> string list" where
  \<comment> \<open>a pattern whose search raises is skipped (\<^verbatim>\<open>except Exception: continue\<close>)\<close>
  "check_patterns rs txt patterns =
     (if txt = [] then (False, [])
      else
        let text_lower = lower txt;
            matches = filter (\<lambda>pattern. rs pattern text_lower = Inr True) patterns
        in (length matches > 0, matches))"

definition has_unsubscribe_header :: "EmailMessage \<Rightarrow> bool" where
  "has_unsubscribe_header email =
     (case headers email of
        HeadersNone \<Rightarrow> False
      | HeadersList hs \<Rightarrow>
          list_ex (\<lambda>h. case h of
                      ItemDict d \<Rightarrow>
                        lower (case map_of d ''name'' of None \<Rightarrow> [] | Some name \<Rightarrow> name)
                          = ''list-unsubscribe''
                    | ItemStr s \<Rightarrow> contains ''list-unsubscribe'' (lower s)
                    | ItemOther \<Rightarrow> False) hs
      | HeadersDict d \<Rightarrow> list_ex (\<lambda>key. lower key = ''list-unsubscribe'') (map fst d)
      | HeadersStr s \<Rightarrow> contains ''list-unsubscribe'' (lower s))"

subsection \<open>The three scores\<close>

text \<open>Each calculation keeps \<open>(score, reasons)\<close>, starting from \<open>(0.0, [])\<close>, inside a
  \<^verbatim>\<open>try\<close> whose handler is \<^verbatim>\<open>pass\<close>; after the \<^verbatim>\<open>try\<close> it returns the score, clamped,
  and the reasons.  The body first reads the fields and then applies its rules, so when
  a field cannot be read the state is still \<open>(0.0, [])\<close>.  A rule is a function from the
  state to the state.  \<^verbatim>\<open>_check_patterns\<close> guards each of its searches itself; the one
  search left to the handler of a calculation is that of the price pattern.\<close>

type_synonym score_state = "rat \<times> string list"

definition newsletter_rules ::
  "re_search \<Rightarrow> EmailMessage \<Rightarrow> string \<Rightarrow> string \<Rightarrow> string \<Rightarrow> score_state" where
  \<comment> \<open>the four rules, applied to the values read: the lower-cased address, the sender
      name and the subject\<close>
  "newsletter_rules rs email sender_email' sender_name subject' =
     (let domain = extract_domain sender_email';
          st = (0, []);
          st = (if has_unsubscribe_header email
                then (fadd (fst st) (to_double (35/100)), snd st @ [''Has unsubscribe header''])
                else st);
          st = (if domain \<in> set newsletter_domains
                then (fadd (fst st) (to_double (35/100)),
                      snd st @ [''Newsletter platform: '' @ domain])
                else st);
          st = (if fst (check_patterns rs sender_name newsletter_sender_patterns)
                then (fadd (fst st) (to_double (2/10)), snd st @ [''Newsletter sender pattern''])
                else st);
          st = (if fst (check_patterns rs subject' newsletter_subject_patterns)
                then (fadd (fst st) (to_double (25/100)), snd st @ [''Newsletter subject pattern''])
                else st)
      in st)"

definition calculate_newsletter_score :: "re_search \<Rightarrow> EmailMessage \<Rightarrow> rat \<times> string list" where
  \<comment> \<open>\<open>st\<close> is the state in which the \<^verbatim>\<open>try\<close> statement is left\<close>
  "calculate_newsletter_score rs email =
     (let st =
            (case field_str (sender_email email) of
               Inl ex \<Rightarrow> (0, [])
             | Inr a \<Rightarrow>
                 (case field_str (sender email) of
                    Inl ex \<Rightarrow> (0, [])
                  | Inr n \<Rightarrow>
                      (case field_str (subject email) of
                         Inl ex \<Rightarrow> (0, [])
                       | Inr s \<Rightarrow> newsletter_rules rs email (lower a) (extract_sender_name n) s)))
      in (min (fst st) 1, snd st))"

definition sender_parts :: "string \<Rightarrow> string list" where
  \<comment> \<open>\<^verbatim>\<open>re.split(r'[@.\-_]', sender_email)\<close>\<close>
  "sender_parts addr =
     split_where (\<lambda>c. c = CHR ''@'' \<or> c = CHR ''.'' \<or> c = CHR ''-'' \<or> c = CHR ''_'') addr"

definition promo_sender_step :: "string \<Rightarrow> score_state \<Rightarrow> score_state" where
  \<comment> \<open>the loop over the parts, left at the first part that is a promotional sender\<close>
  "promo_sender_step addr st =
     (case find (\<lambda>part. part \<in> set promotional_senders) (sender_parts addr) of
        None \<Rightarrow> st
      | Some part \<Rightarrow>
          (fadd (fst st) (to_double (3/10)), snd st @ [''Promotional sender: '' @ part]))"

definition promo_subject_step :: "re_search \<Rightarrow> string \<Rightarrow> score_state \<Rightarrow> score_state" where
  "promo_subject_step rs subject' st =
     (case check_patterns rs subject' promotional_subject_patterns of
        (matched, patterns) \<Rightarrow>
          if matched
          then (fadd (fst st) (fmul (to_double (15/100)) (of_nat (min (length patterns) 3))),
                snd st @ [''Promotional subject ('' @ str_nat (length patterns) @ '' patterns)''])
          else st)"

definition promo_content_step :: "re_search \<Rightarrow> string \<Rightarrow> score_state \<Rightarrow> score_state" where
  "promo_content_step rs body st =
     (case check_patterns rs body promotional_content_patterns of
        (matched, patterns) \<Rightarrow>
          if matched
          then (fadd (fst st) (fmul (to_double (1/10)) (of_nat (min (length patterns) 4))),
                snd st @ [''Promotional content''])
          else st)"

definition promo_price_step :: "re_search \<Rightarrow> string \<Rightarrow> score_state \<Rightarrow> score_state" where
  \<comment> \<open>the last rule calls \<^verbatim>\<open>re.search\<close> directly: when it raises, the handler
      \<^verbatim>\<open>except Exception: pass\<close> leaves score and reasons as they were\<close>
  "promo_price_step rs subject' st =
     (case rs price_pattern (lower subject') of
        Inl ex \<Rightarrow> st
      | Inr found \<Rightarrow>
          if found
          then (fadd (fst st) (to_double (25/100)), snd st @ [''Price/discount in subject''])
          else st)"

definition promo_rules :: "re_search \<Rightarrow> string \<Rightarrow> string \<Rightarrow> string \<Rightarrow> rat \<times> string list" where
  \<comment> \<open>what follows the reading of the fields: the block-list test, which returns from
      inside the \<^verbatim>\<open>try\<close>, and the four rules\<close>
  "promo_rules rs sender_email' subject' body =
     (let domain = extract_domain sender_email'
      in if domain \<in> set blacklisted_domains
         then (1, [''Blacklisted sender domain''])
         else
           let st = promo_sender_step sender_email' (0, []);
               st = promo_subject_step rs subject' st;
               st = promo_content_step rs body st;
               st = promo_price_step rs subject' st
           in (min (fst st) 1, snd st))"

definition calculate_promotional_score :: "re_search \<Rightarrow> EmailMessage \<Rightarrow> rat \<times> string list" where
  "calculate_promotional_score rs email =
     (case field_str (sender_email email) of
        Inl ex \<Rightarrow> (min 0 1, [])
      | Inr a \<Rightarrow>
          (case field_str (subject email) of
             Inl ex \<Rightarrow> (min 0 1, [])
           | Inr s \<Rightarrow>
               (case field_str (body_text email) of
                  Inl ex \<Rightarrow> (min 0 1, [])
                | Inr b \<Rightarrow> promo_rules rs (lower a) s (take 2000 b))))"

definition quality_platform_step :: "string \<Rightarrow> score_state \<Rightarrow> score_state" where
  "quality_platform_step domain st =
     (if domain \<in> set whitelisted_domains
      then (fadd (fst st) (to_double (4/10)), snd st @ [''Quality newsletter platform''])
      else st)"

definition quality_subject_step :: "re_search \<Rightarrow> string \<Rightarrow> score_state \<Rightarrow> score_state" where
  "quality_subject_step rs subject' st =
     (case check_patterns rs subject' quality_subject_patterns of
        (matched, patterns) \<Rightarrow>
          if matched
          then (fadd (fst st) (fmul (to_double (15/100)) (of_nat (min (length patterns) 2))),
                snd st @ [''Quality subject''])
          else st)"

definition quality_length_step :: "string \<Rightarrow> score_state \<Rightarrow> score_state" where
  \<comment> \<open>\<open>body\<close> is what \<^verbatim>\<open>_calculate_quality_score\<close> calls \<^verbatim>\<open>body\<close>: the first 3000
      characters of the body text\<close>
  "quality_length_step body st =
     (let wc = length (split_words body)
      in if wc > 500
         then (fadd (fst st) (to_double (15/100)), snd st @ [''Substantial content''])
         else if wc > 200
         then (fadd (fst st) (to_double (1/10)), snd st @ [''Decent content length''])
         else if wc < 100 then (fsub (fst st) (to_double (2/10)), snd st)
         else st)"

definition calculate_quality_score :: "re_search \<Rightarrow> EmailMessage \<Rightarrow> rat \<times> string list" where
  \<comment> \<open>\<open>st\<close> is the state in which the \<^verbatim>\<open>try\<close> statement is left\<close>
  "calculate_quality_score rs email =
     (let st =
            (case field_str (sender_email email) of
               Inl ex \<Rightarrow> (0, [])
             | Inr a \<Rightarrow>
                 (case field_str (subject email) of
                    Inl ex \<Rightarrow> (0, [])
                  | Inr s \<Rightarrow>
                      (case field_str (body_text email) of
                         Inl ex \<Rightarrow> (0, [])
                       | Inr b \<Rightarrow>
                           quality_length_step (take 3000 b)
                             (quality_subject_step rs s
                               (quality_platform_step (extract_domain (lower a)) (0, []))))))
      in (max (min (fst st) 1) 0, snd st))"

subsection \<open>\<^verbatim>\<open>detect\<close> and \<^verbatim>\<open>filter_newsletters\<close>\<close>

definition detect_try ::
  "re_search \<Rightarrow> NewsletterDetector \<Rightarrow> EmailMessage \<Rightarrow> py_exception + DetectionResult" where
  \<comment> \<open>the \<^verbatim>\<open>try\<close> block of \<^verbatim>\<open>detect\<close>.  The three calls return pairs; each comparison
      with a threshold may raise; \<^verbatim>\<open>a and not b and c\<close> evaluates \<^verbatim>\<open>c\<close> only when
      \<^verbatim>\<open>a\<close> is true and \<^verbatim>\<open>b\<close> is false.\<close>
  "detect_try rs self email =
     (case calculate_newsletter_score rs email of (newsletter_score, nl_reasons) \<Rightarrow>
      case calculate_promotional_score rs email of (promo_score, promo_reasons) \<Rightarrow>
      case calculate_quality_score rs email of (quality_score', quality_reasons) \<Rightarrow>
        (case float_ge newsletter_score (newsletter_threshold self) of
           Inl ex \<Rightarrow> Inl ex
         | Inr is_newsletter' \<Rightarrow>
             (case float_ge promo_score (promotional_threshold self) of
                Inl ex \<Rightarrow> Inl ex
              | Inr is_promotional' \<Rightarrow>
                  (case (if is_newsletter' \<and> \<not> is_promotional'
                         then float_ge quality_score' (quality_threshold self)
                         else Inr False) of
                     Inl ex \<Rightarrow> Inl ex
                   | Inr is_worth_reading' \<Rightarrow>
                       Inr \<lparr>is_newsletter = is_newsletter',
                            is_promotional = is_promotional',
                            is_worth_reading = is_worth_reading',
                            newsletter_confidence = newsletter_score,
                            promotional_score = promo_score,
                            quality_score = quality_score',
                            reasons = nl_reasons @ promo_reasons @ quality_reasons\<rparr>))))"

definition detect :: "re_search \<Rightarrow> NewsletterDetector \<Rightarrow> EmailMessage \<Rightarrow> DetectionResult" where
  \<comment> \<open>both the \<^verbatim>\<open>try\<close> block and the handler end in \<^verbatim>\<open>return\<close>\<close>
  "detect rs self email =
     (case detect_try rs self email of
        Inr result \<Rightarrow> result
      | Inl (PyException e) \<Rightarrow>
          \<lparr>is_newsletter = False,
           is_promotional = True,
           is_worth_reading = False,
           newsletter_confidence = 0,
           promotional_score = 1,
           quality_score = 0,
           reasons = [''Error: '' @ e]\<rparr>)"

definition sort_reverse :: "('a \<Rightarrow> rat) \<Rightarrow> 'a list \<Rightarrow> 'a list" where
  \<comment> \<open>\<^verbatim>\<open>list.sort(key=..., reverse=True)\<close>: the built-in reverses the list, sorts it with
      its stable sort, and reverses the result\<close>
  "sort_reverse key xs = rev (sort_key key (rev xs))"

definition filter_newsletters ::
  "re_search \<Rightarrow> NewsletterDetector \<Rightarrow> EmailMessage list \<Rightarrow> bool \<Rightarrow> (EmailMessage \<times> DetectionResult) list" where
  "filter_newsletters rs self emails quality_only =
     (let results =
            concat (map (\<lambda>email.
                      let result = detect rs self email
                      in if quality_only
                         then (if is_worth_reading result then [(email, result)] else [])
                         else (if is_newsletter result then [(email, result)] else []))
                    emails)
      in sort_reverse (\<lambda>x. quality_score (snd x)) results)"

subsection \<open>Python's comparisons as predicates, and the local part of an address\<close>

definition py_ge :: "rat \<Rightarrow> py_value \<Rightarrow> bool" where
  \<comment> \<open>\<^verbatim>\<open>x >= t\<close> is true\<close>
  "py_ge x t \<longleftrightarrow> float_ge x t = Inr True"

definition py_not_ge :: "rat \<Rightarrow> py_value \<Rightarrow> bool" where
  \<comment> \<open>\<^verbatim>\<open>x >= t\<close> is false\<close>
  "py_not_ge x t \<longleftrightarrow> float_ge x t = Inr False"

definition py_lt :: "rat \<Rightarrow> py_value \<Rightarrow> bool" where
  \<comment> \<open>\<^verbatim>\<open>x < t\<close> is true, for a finite float \<open>x\<close>\<close>
  "py_lt x t \<longleftrightarrow> (case t of Float r \<Rightarrow> x < r | PosInf \<Rightarrow> True | _ \<Rightarrow> False)"

definition is_object :: "py_value \<Rightarrow> bool" where
  "is_object t \<longleftrightarrow> (case t of Object ty \<Rightarrow> True | _ \<Rightarrow> False)"


definition local_part :: "string \<Rightarrow> string" where
  \<comment> \<open>the specification's local part: what stands before the first \<^verbatim>\<open>@\<close>.  The
      detector has no such function; it is used to state what the sender rule is
      compared with.\<close>
  "local_part addr = hd (split_where (\<lambda>c. c = CHR ''@'') addr)"

subsection \<open>The inputs of the examples\<close>

definition blank_message :: EmailMessage where
  "blank_message =
     \<lparr>msg_id = ''m1'', thread_id = ''t1'', subject = Str [], sender = Str [],
      sender_email = Str [], date = 0, snippet = [], body_html = [], body_text = Str [],
      headers = HeadersNone, labels = []\<rparr>"

definition blank_content :: CleanedContent where
  "blank_content =
     \<lparr>title = [], content_text = [], word_count = 0, source_email_id = ''m1'',
      source_subject = [], source_sender = [], source_date = []\<rparr>"

definition default_detector :: NewsletterDetector where
  "default_detector = NewsletterDetector_init None None None"

definition amazon_message :: EmailMessage where
  "amazon_message =
     blank_message\<lparr>sender_email := Str ''noreply@amazon.com'',
                    subject := Str ''50% off today only!''\<rparr>"

definition amazon_unsubscribe_message :: EmailMessage where
  "amazon_unsubscribe_message =
     blank_message\<lparr>sender_email := Str ''deals@amazon.com'',
                    headers := HeadersDict [(''list-unsubscribe'', ''<mailto:unsubscribe@amazon.com>'')]\<rparr>"

definition lenient_detector :: NewsletterDetector where
  "lenient_detector =
     \<lparr>newsletter_threshold = Float (to_double (3/10)),
      promotional_threshold = Float (to_double (3/2)),
      quality_threshold = Float 0\<rparr>"

definition nan_detector :: NewsletterDetector where
  \<comment> \<open>\<^verbatim>\<open>NewsletterDetector(promotional_threshold=float('nan'))\<close>\<close>
  "nan_detector = NewsletterDetector_init None (Some NaN) None"


definition substack_message :: EmailMessage where
  \<comment> \<open>a message from a newsletter platform with a \<^verbatim>\<open>List-Unsubscribe\<close> header and a body
      of 100 words\<close>
  "substack_message =
     blank_message\<lparr>sender_email := Str ''editor@substack.com'',
                    body_text := Str (concat (replicate 100 ''w '')),
                    headers := HeadersDict [(''list-unsubscribe'', ''<mailto:unsubscribe@substack.com>'')]\<rparr>"



definition small_chunker :: TextChunker where
  "small_chunker = \<lparr>chunk_size = 10, overlap = 5\<rparr>"

definition three_sentences :: CleanedContent where
  "three_sentences = blank_content\<lparr>content_text := ''aa. bb. cccccccc.''\<rparr>"

definition shop_message :: EmailMessage where
  "shop_message = blank_message\<lparr>sender_email := Str ''jane@shop.io''\<rparr>"


definition long_words_body :: string where
  \<comment> \<open>600 words: the first 300 have nine letters and fill the first 3000 characters\<close>
  "long_words_body = concat (replicate 300 ''aaaaaaaaa '') @ concat (replicate 300 ''b '')"

definition long_words_message :: EmailMessage where
  "long_words_message = blank_message\<lparr>body_text := Str long_words_body\<rparr>"

section \<open>Lemmas shared by the properties\<close>

lemma set_sort_reverse: "set (sort_reverse key xs) = set xs"
  by (simp add: sort_reverse_def)

lemma sort_reverse_sorted: "sorted_wrt (\<lambda>a b. key a \<ge> key b) (sort_reverse key xs)"
proof -
  have "sorted (map key (sort_key key (rev xs)))" by (rule sorted_sort_key)
  then have "sorted_wrt (\<lambda>a b. key a \<le> key b) (sort_key key (rev xs))"
    by (simp add: sorted_map)
  then show ?thesis
    by (simp add: sort_reverse_def sorted_wrt_rev)
qed

lemma sort_reverse_stable:
  "filter (\<lambda>x. key x = k) (sort_reverse key xs) = filter (\<lambda>x. key x = k) xs"
proof -
  have "filter (\<lambda>x. key x = k) (sort_key key (rev xs)) = filter (\<lambda>x. key x = k) (rev xs)"
    by (rule sort_key_stable)
  then show ?thesis
    by (simp add: sort_reverse_def rev_filter [symmetric])
qed

lemma accepted_concat:
  "concat (map (\<lambda>email. if P email then [(email, f email)] else []) emails)
     = map (\<lambda>email. (email, f email)) (filter P emails)"
  by (induction emails) auto

lemma filter_newsletters_eq:
  "filter_newsletters rs self emails quality_only =
     sort_reverse (\<lambda>x. quality_score (snd x))
       (map (\<lambda>email. (email, detect rs self email))
          (filter (\<lambda>email. if quality_only then is_worth_reading (detect rs self email)
                           else is_newsletter (detect rs self email)) emails))"
proof -
  have "(\<lambda>email. let result = detect rs self email
                  in if quality_only
                     then (if is_worth_reading result then [(email, result)] else [])
                     else (if is_newsletter result then [(email, result)] else []))
        = (\<lambda>email. if (if quality_only then is_worth_reading (detect rs self email)
                           else is_newsletter (detect rs self email))
                    then [(email, detect rs self email)] else [])"
    by (auto simp: Let_def)
  then show ?thesis
    unfolding filter_newsletters_def Let_def
    by (simp add: accepted_concat)
qed

lemma float_ge_object: "is_object t \<Longrightarrow> \<exists>ex. \<forall>x. float_ge x t = Inl ex"
  by (cases t) (simp_all add: is_object_def float_ge_def)

lemma float_ge_number: "\<not> is_object t \<Longrightarrow> \<exists>b. float_ge x t = Inr b"
  by (cases t) (auto simp: is_object_def float_ge_def)

lemma float_ge_Inl_iff: "(\<exists>ex. float_ge x t = Inl ex) \<longleftrightarrow> is_object t"
  by (cases t) (simp_all add: is_object_def float_ge_def)

lemma detect_try_Inl:
  "detect_try rs self email = Inl (PyException msg) \<Longrightarrow>
   detect rs self email =
     \<lparr>is_newsletter = False, is_promotional = True, is_worth_reading = False,
      newsletter_confidence = 0, promotional_score = 1, quality_score = 0,
      reasons = [''Error: '' @ msg]\<rparr>"
  by (simp add: detect_def)

lemma detect_try_Inr:
  assumes "detect_try rs self email = Inr v"
  shows "detect rs self email = v"
    and "newsletter_confidence v = fst (calculate_newsletter_score rs email)"
    and "promotional_score v = fst (calculate_promotional_score rs email)"
    and "quality_score v = fst (calculate_quality_score rs email)"
    and "reasons v = snd (calculate_newsletter_score rs email)
           @ snd (calculate_promotional_score rs email) @ snd (calculate_quality_score rs email)"
    and "is_newsletter v \<longleftrightarrow>
           py_ge (fst (calculate_newsletter_score rs email)) (newsletter_threshold self)"
    and "is_promotional v \<longleftrightarrow>
           py_ge (fst (calculate_promotional_score rs email)) (promotional_threshold self)"
    and "is_worth_reading v \<longleftrightarrow>
           py_ge (fst (calculate_newsletter_score rs email)) (newsletter_threshold self) \<and>
           py_not_ge (fst (calculate_promotional_score rs email)) (promotional_threshold self) \<and>
           py_ge (fst (calculate_quality_score rs email)) (quality_threshold self)"
  using assms
  by (auto simp: detect_def detect_try_def py_ge_def py_not_ge_def
           split: prod.splits sum.splits if_splits)

lemma detect_try_Inl_iff:
  "(\<exists>ex. detect_try rs self email = Inl ex) \<longleftrightarrow>
     is_object (newsletter_threshold self) \<or> is_object (promotional_threshold self) \<or>
     (is_object (quality_threshold self) \<and>
      py_ge (fst (calculate_newsletter_score rs email)) (newsletter_threshold self) \<and>
      py_not_ge (fst (calculate_promotional_score rs email)) (promotional_threshold self))"
proof -
  let ?n = "float_ge (fst (calculate_newsletter_score rs email)) (newsletter_threshold self)"
  let ?p = "float_ge (fst (calculate_promotional_score rs email)) (promotional_threshold self)"
  let ?q = "float_ge (fst (calculate_quality_score rs email)) (quality_threshold self)"
  have n: "(\<exists>ex. ?n = Inl ex) \<longleftrightarrow> is_object (newsletter_threshold self)"
    by (rule float_ge_Inl_iff)
  have p: "(\<exists>ex. ?p = Inl ex) \<longleftrightarrow> is_object (promotional_threshold self)"
    by (rule float_ge_Inl_iff)
  have q: "(\<exists>ex. ?q = Inl ex) \<longleftrightarrow> is_object (quality_threshold self)"
    by (rule float_ge_Inl_iff)
  have "(\<exists>ex. detect_try rs self email = Inl ex) \<longleftrightarrow>
        (\<exists>ex. ?n = Inl ex) \<or> (\<exists>ex. ?p = Inl ex) \<or>
        ((\<exists>ex. ?q = Inl ex) \<and> ?n = Inr True \<and> ?p = Inr False)"
    by (cases ?n; cases ?p; cases ?q)
       (auto simp: detect_try_def split: prod.splits if_splits)
  then show ?thesis
    unfolding n p q py_ge_def py_not_ge_def .
qed

lemma worth_reading_iff:
  "is_worth_reading (detect rs self email) \<longleftrightarrow>
     py_ge (newsletter_confidence (detect rs self email)) (newsletter_threshold self) \<and>
     py_not_ge (promotional_score (detect rs self email)) (promotional_threshold self) \<and>
     py_ge (quality_score (detect rs self email)) (quality_threshold self)"
proof (cases "detect_try rs self email")
  case (Inr v)
  from detect_try_Inr [OF Inr] show ?thesis by simp
next
  case (Inl ex)
  obtain msg where ex: "ex = PyException msg" by (cases ex)
  have d: "detect rs self email =
     \<lparr>is_newsletter = False, is_promotional = True, is_worth_reading = False,
      newsletter_confidence = 0, promotional_score = 1, quality_score = 0,
      reasons = [''Error: '' @ msg]\<rparr>"
    using Inl ex by (simp add: detect_try_Inl)
  from Inl have "\<exists>ex. detect_try rs self email = Inl ex" by blast
  then have "is_object (newsletter_threshold self) \<or> is_object (promotional_threshold self) \<or>
     is_object (quality_threshold self)"
    by (auto simp: detect_try_Inl_iff)
  then have "\<not> (py_ge 0 (newsletter_threshold self) \<and> py_not_ge 1 (promotional_threshold self) \<and>
     py_ge 0 (quality_threshold self))"
    using float_ge_object [of "newsletter_threshold self"]
          float_ge_object [of "promotional_threshold self"]
          float_ge_object [of "quality_threshold self"]
    by (auto simp: py_ge_def py_not_ge_def)
  with d show ?thesis by simp
qed

lemma py_not_ge_iff_lt: "t \<noteq> NaN \<Longrightarrow> py_not_ge x t \<longleftrightarrow> py_lt x t"
  by (cases t) (auto simp: py_not_ge_def py_lt_def float_ge_def)

lemma promo_rules_blacklisted:
  "extract_domain a \<in> set blacklisted_domains \<Longrightarrow>
   promo_rules rs a s b = (1, [''Blacklisted sender domain''])"
  by (simp add: promo_rules_def Let_def)

lemma calculate_promotional_score_read:
  "field_str (sender_email email) = Inr a \<Longrightarrow> field_str (subject email) = Inr s \<Longrightarrow>
   field_str (body_text email) = Inr b \<Longrightarrow>
   calculate_promotional_score rs email = promo_rules rs (lower a) s (take 2000 b)"
  by (simp add: calculate_promotional_score_def)

lemma split_into_sentences_Nil: "split_into_sentences [] = []"
  by (simp add: split_into_sentences_def contains_def strip_def strip_chars_def)

lemma map_enumerate_fst:
  "map (\<lambda>p. f (fst p)) (enumerate 0 xs) = map f [0..<length xs]"
proof -
  have "map (\<lambda>p. f (fst p)) (enumerate 0 xs) = map f (map fst (enumerate 0 xs))"
    by (simp only: map_map comp_def)
  then show ?thesis
    by simp
qed

lemma chunk_ids:
  "map chunk_id (chunk self d) =
     map (\<lambda>i. source_email_id d @ ''_'' @ str_nat i) [0..<length (chunk self d)]"
proof (cases "int (length (content_text d)) \<le> chunk_size self")
  case True
  then show ?thesis by (simp add: chunk_def make_chunk_def)
next
  case False
  with map_enumerate_fst [of "\<lambda>i. source_email_id d @ ''_'' @ str_nat i"
         "chunk_texts self (split_into_sentences (content_text d))"]
  show ?thesis
    by (simp add: chunk_def Let_def make_chunk_def comp_def case_prod_unfold)
qed

lemma chunk_indices: "map chunk_index (chunk self d) = [0..<length (chunk self d)]"
proof (cases "int (length (content_text d)) \<le> chunk_size self")
  case True
  then show ?thesis by (simp add: chunk_def make_chunk_def)
next
  case False
  then show ?thesis
    by (simp add: chunk_def Let_def make_chunk_def comp_def case_prod_unfold)
qed

lemma chunk_totals: "list_all (\<lambda>w. total_chunks w = length (chunk self d)) (chunk self d)"
  by (simp add: chunk_def Let_def make_chunk_def list_all_iff case_prod_unfold)

lemma chunk_projection_cong:
  assumes "content_text d1 = content_text d2" and "source_email_id d1 = source_email_id d2"
  shows "map (\<lambda>w. (chunk_id w, chunk_text w, chunk_index w, total_chunks w)) (chunk self d1) =
         map (\<lambda>w. (chunk_id w, chunk_text w, chunk_index w, total_chunks w)) (chunk self d2)"
  using assms by (simp add: chunk_def Let_def make_chunk_def comp_def case_prod_unfold)

lemma float_sum_example:
  \<comment> \<open>\<^verbatim>\<open>0.35 + 0.35 + 0.2\<close> is \<^verbatim>\<open>0.8999999999999999\<close>, below \<^verbatim>\<open>0.9\<close>\<close>
  "fadd (fadd (fadd 0 (to_double (35/100))) (to_double (35/100))) (to_double (2/10))
     = 2026619832316723 / 2251799813685248 \<and>
   fadd (fadd (fadd 0 (to_double (35/100))) (to_double (35/100))) (to_double (2/10))
     < to_double (9/10)"
  by code_simp

lemma substack_verdict_default:
  "detect no_match default_detector substack_message =
     \<lparr>is_newsletter = True, is_promotional = False, is_worth_reading = True,
      newsletter_confidence = fadd (fadd 0 (to_double (35/100))) (to_double (35/100)),
      promotional_score = 0,
      quality_score = fadd 0 (to_double (4/10)),
      reasons = [''Has unsubscribe header'', ''Newsletter platform: substack.com'',
                 ''Quality newsletter platform'']\<rparr>"
  by code_simp

lemma substack_verdict_nan:
  "detect no_match nan_detector substack_message =
     \<lparr>is_newsletter = True, is_promotional = False, is_worth_reading = True,
      newsletter_confidence = fadd (fadd 0 (to_double (35/100))) (to_double (35/100)),
      promotional_score = 0,
      quality_score = fadd 0 (to_double (4/10)),
      reasons = [''Has unsubscribe header'', ''Newsletter platform: substack.com'',
                 ''Quality newsletter platform'']\<rparr>"
  by code_simp






lemma promo_rules_not_blacklisted:
  "extract_domain a \<notin> set blacklisted_domains \<Longrightarrow>
   promo_rules rs a s b =
     (let st = promo_price_step rs s
                 (promo_content_step rs b (promo_subject_step rs s (promo_sender_step a (0, []))))
      in (min (fst st) 1, snd st))"
  by (simp add: promo_rules_def Let_def)



lemma find_Some_set: "find P xs = Some x \<Longrightarrow> x \<in> set xs \<and> P x"
  by (induction xs) (auto split: if_splits)

lemma promo_sender_step_fst:
  "fst (promo_sender_step addr (x, r)) =
     (if \<exists>part\<in>set (sender_parts addr). part \<in> set promotional_senders
      then fadd x (to_double (3/10)) else x)"
proof (cases "find (\<lambda>part. part \<in> set promotional_senders) (sender_parts addr)")
  case None
  then have "\<not> (\<exists>part\<in>set (sender_parts addr). part \<in> set promotional_senders)"
    by (simp add: find_None_iff)
  with None show ?thesis
    by (simp add: promo_sender_step_def)
next
  case (Some part)
  then have "\<exists>part\<in>set (sender_parts addr). part \<in> set promotional_senders"
    using find_Some_set [of "\<lambda>part. part \<in> set promotional_senders" "sender_parts addr" part]
    by blast
  with Some show ?thesis
    by (simp add: promo_sender_step_def)
qed

lemma promo_subject_step_fst_cong:
  "fst st = fst st' \<Longrightarrow> fst (promo_subject_step rs s st) = fst (promo_subject_step rs s st')"
  by (simp add: promo_subject_step_def split: prod.splits)

lemma promo_content_step_fst_cong:
  "fst st = fst st' \<Longrightarrow> fst (promo_content_step rs b st) = fst (promo_content_step rs b st')"
  by (simp add: promo_content_step_def split: prod.splits)

lemma promo_price_step_fst_cong:
  "fst st = fst st' \<Longrightarrow> fst (promo_price_step rs s st) = fst (promo_price_step rs s st')"
  by (simp add: promo_price_step_def split: sum.splits)

lemma promo_steps_fst_cong:
  assumes "fst st = fst st'"
  shows "fst (promo_price_step rs s (promo_content_step rs b (promo_subject_step rs s st))) =
         fst (promo_price_step rs s (promo_content_step rs b (promo_subject_step rs s st')))"
  by (intro promo_price_step_fst_cong promo_content_step_fst_cong promo_subject_step_fst_cong
        assms)

lemma split_where_nonempty: "split_where P xs \<noteq> []"
  by (induction xs) (auto split: list.splits)

lemma hd_split_where: "hd (split_where P xs) = takeWhile (\<lambda>c. \<not> P c) xs"
proof (induction xs)
  case Nil
  show ?case by simp
next
  case (Cons c cs)
  obtain w ws where "split_where P cs = w # ws"
    using split_where_nonempty [of P cs] by (cases "split_where P cs") auto
  with Cons show ?case by simp
qed

lemma takeWhile_finer:
  assumes "\<And>c. R c \<Longrightarrow> Q c" and "\<forall>c\<in>set (takeWhile Q xs). R c"
  shows "takeWhile R xs = takeWhile Q xs"
  using assms(2)
proof (induction xs)
  case Nil
  show ?case by simp
next
  case (Cons x xs)
  show ?case
  proof (cases "Q x")
    case True
    with Cons show ?thesis by simp
  next
    case False
    then have "\<not> R x" using assms(1) by blast
    with False show ?thesis by simp
  qed
qed

lemma local_part_is_a_part:
  assumes "\<forall>c\<in>set (local_part addr).
             \<not> (c = CHR ''@'' \<or> c = CHR ''.'' \<or> c = CHR ''-'' \<or> c = CHR ''_'')"
  shows "local_part addr \<in> set (sender_parts addr)"
proof -
  let ?sep = "\<lambda>c. c = CHR ''@'' \<or> c = CHR ''.'' \<or> c = CHR ''-'' \<or> c = CHR ''_''"
  have l: "local_part addr = takeWhile (\<lambda>c. \<not> c = CHR ''@'') addr"
    by (simp add: local_part_def hd_split_where)
  have "takeWhile (\<lambda>c. \<not> ?sep c) addr = takeWhile (\<lambda>c. \<not> c = CHR ''@'') addr"
    by (rule takeWhile_finer) (use assms l in auto)
  then have "hd (sender_parts addr) = local_part addr"
    by (simp add: sender_parts_def hd_split_where l)
  moreover have "sender_parts addr \<noteq> []"
    by (simp add: sender_parts_def split_where_nonempty)
  ultimately show ?thesis
    by (metis hd_in_set)
qed

lemma tokens_checked:
  "list_all (\<lambda>t. t = ''no-reply'' \<or> t = ''do-not-reply'' \<or>
                  list_all (\<lambda>c. \<not> (c = CHR ''@'' \<or> c = CHR ''.'' \<or> c = CHR ''-'' \<or> c = CHR ''_'')) t)
     promotional_senders"
  by code_simp

lemma plain_tokens:
  assumes "t \<in> set promotional_senders" and "t \<notin> {''no-reply'', ''do-not-reply''}"
  shows "\<forall>c\<in>set t. \<not> (c = CHR ''@'' \<or> c = CHR ''.'' \<or> c = CHR ''-'' \<or> c = CHR ''_'')"
proof -
  from tokens_checked assms(1)
  have "t = ''no-reply'' \<or> t = ''do-not-reply'' \<or>
        list_all (\<lambda>c. \<not> (c = CHR ''@'' \<or> c = CHR ''.'' \<or> c = CHR ''-'' \<or> c = CHR ''_'')) t"
    unfolding list_all_iff [of _ promotional_senders] by blast
  with assms(2) show ?thesis
    unfolding list_all_iff by blast
qed

lemma quality_platform_step_fst:
  "fst (quality_platform_step d (x, r)) =
     (if d \<in> set whitelisted_domains then fadd x (to_double (4/10)) else x)"
  by (simp add: quality_platform_step_def)

lemma quality_subject_step_fst:
  "fst (quality_subject_step rs s st) =
     (if fst (check_patterns rs s quality_subject_patterns)
      then fadd (fst st) (fmul (to_double (15/100))
             (of_nat (min (length (snd (check_patterns rs s quality_subject_patterns))) 2)))
      else fst st)"
  by (simp add: quality_subject_step_def split: prod.splits)

lemma quality_length_step_fst:
  "fst (quality_length_step body st) =
     (if length (split_words body) > 500 then fadd (fst st) (to_double (15/100))
      else if length (split_words body) > 200 then fadd (fst st) (to_double (1/10))
      else if length (split_words body) < 100 then fsub (fst st) (to_double (2/10))
      else fst st)"
  by (simp add: quality_length_step_def Let_def)

lemma calculate_quality_score_read:
  "field_str (sender_email email) = Inr a \<Longrightarrow> field_str (subject email) = Inr s \<Longrightarrow>
   field_str (body_text email) = Inr b \<Longrightarrow>
   calculate_quality_score rs email =
     (let st = quality_length_step (take 3000 b)
                 (quality_subject_step rs s
                   (quality_platform_step (extract_domain (lower a)) (0, [])))
      in (max (min (fst st) 1) 0, snd st))"
  by (simp add: calculate_quality_score_def)

lemma split_words_nonempty: "\<not> is_space c \<Longrightarrow> split_words (c # cs) \<noteq> []"
  by (cases cs) (auto split: list.splits)

lemma length_split_words_Cons:
  assumes c: "\<not> is_space c"
  shows "length (split_words (c # cs)) =
     (case cs of [] \<Rightarrow> 1
      | d # ds \<Rightarrow> if is_space d then Suc (length (split_words ds)) else length (split_words cs))"
proof (cases cs)
  case Nil
  with c show ?thesis by simp
next
  case (Cons d ds)
  show ?thesis
  proof (cases "is_space d")
    case True
    with c Cons show ?thesis by simp
  next
    case False
    then have "split_words (d # ds) \<noteq> []" by (rule split_words_nonempty)
    then obtain w ws where "split_words (d # ds) = w # ws"
      by (cases "split_words (d # ds)") auto
    with c False Cons show ?thesis by simp
  qed
qed

lemma length_split_words_blocks:
  assumes "\<And>rest. length (split_words (w @ rest)) = Suc (length (split_words rest))"
  shows "length (split_words (concat (replicate n w) @ rest)) = n + length (split_words rest)"
  by (induction n) (simp_all add: assms)

lemma length_concat_replicate: "length (concat (replicate n w)) = n * length w"
  by (induction n) simp_all

lemma long_block: "length (split_words (''aaaaaaaaa '' @ rest)) = Suc (length (split_words rest))"
  by (simp add: length_split_words_Cons is_space_def del: split_words.simps)

lemma short_block: "length (split_words (''b '' @ rest)) = Suc (length (split_words rest))"
  by (simp add: length_split_words_Cons is_space_def del: split_words.simps)

lemma long_words_full_count: "length (split_words long_words_body) = 600"
  using length_split_words_blocks [of "''aaaaaaaaa ''" 300 "concat (replicate 300 ''b '')", OF long_block]
        length_split_words_blocks [of "''b ''" 300 "[]", OF short_block]
  by (simp add: long_words_body_def)

lemma long_words_truncated: "take 3000 long_words_body = concat (replicate 300 ''aaaaaaaaa '')"
  by (simp add: long_words_body_def length_concat_replicate)

lemma long_words_truncated_count: "length (split_words (take 3000 long_words_body)) = 300"
  using length_split_words_blocks [of "''aaaaaaaaa ''" 300 "[]", OF long_block]
  by (simp add: long_words_truncated)

section \<open>Properties of the classifier\<close>

text \<open>
  \<^bold>\<open>C1\<close> (as the code has it).  For every message, every configuration and every search
  function, the verdict marks the message as worth reading exactly when
  \<^verbatim>\<open>newsletter_score >= newsletter_threshold\<close> is true, \<^verbatim>\<open>promotional_score >=
  promotional_threshold\<close> is false and \<^verbatim>\<open>quality_score >= quality_threshold\<close> is true;
  a pair is in the output of \<open>filter_newsletters\<close> with \<open>quality_only = True\<close> exactly when
  its message is in the input, its verdict is the one \<open>detect\<close> gives, and these three
  hold.  When the promotional threshold is not NaN, the middle condition is
  \<^verbatim>\<open>promotional_score < promotional_threshold\<close>.
\<close>

theorem retained_iff_three_comparisons:
  "(is_worth_reading (detect rs self email) \<longleftrightarrow>
      py_ge (newsletter_confidence (detect rs self email)) (newsletter_threshold self) \<and>
      py_not_ge (promotional_score (detect rs self email)) (promotional_threshold self) \<and>
      py_ge (quality_score (detect rs self email)) (quality_threshold self)) \<and>
   ((email, v) \<in> set (filter_newsletters rs self emails True) \<longleftrightarrow>
      email \<in> set emails \<and> v = detect rs self email \<and>
      py_ge (newsletter_confidence v) (newsletter_threshold self) \<and>
      py_not_ge (promotional_score v) (promotional_threshold self) \<and>
      py_ge (quality_score v) (quality_threshold self)) \<and>
   (promotional_threshold self \<noteq> NaN \<longrightarrow>
      (py_not_ge x (promotional_threshold self) \<longleftrightarrow> py_lt x (promotional_threshold self)))"
proof -
  have b: "(email, v) \<in> set (filter_newsletters rs self emails True) \<longleftrightarrow>
      email \<in> set emails \<and> v = detect rs self email \<and> is_worth_reading (detect rs self email)"
    by (auto simp: filter_newsletters_eq set_sort_reverse)
  show ?thesis
    using worth_reading_iff [of rs self email] b
          py_not_ge_iff_lt [of "promotional_threshold self" x]
    by blast
qed

theorem retained_iff_three_comparisons_witness:
  "promotional_threshold default_detector \<noteq> NaN \<and>
   is_worth_reading (detect no_match default_detector substack_message) \<and>
   py_ge (newsletter_confidence (detect no_match default_detector substack_message))
     (newsletter_threshold default_detector) \<and>
   py_lt (promotional_score (detect no_match default_detector substack_message))
     (promotional_threshold default_detector) \<and>
   py_ge (quality_score (detect no_match default_detector substack_message))
     (quality_threshold default_detector)"
proof -
  have n: "promotional_threshold default_detector \<noteq> NaN"
    by (simp add: default_detector_def NewsletterDetector_init_def)
  have w: "is_worth_reading (detect no_match default_detector substack_message)"
    by (simp add: substack_verdict_default)
  show ?thesis
    using retained_iff_three_comparisons
            [of no_match default_detector substack_message
                "detect no_match default_detector substack_message" "[substack_message]"
                "promotional_score (detect no_match default_detector substack_message)"]
          n w
    by blast
qed

text \<open>Against C1 as stated: with a promotional threshold of NaN and the two other
  thresholds at their defaults, a message from a newsletter platform is kept although
  its promotional score is not below the threshold: no comparison with NaN is true.\<close>

theorem retained_with_nan_threshold_counterexample:
  "promotional_threshold nan_detector = NaN \<and>
   is_worth_reading (detect no_match nan_detector substack_message) \<and>
   \<not> py_lt (promotional_score (detect no_match nan_detector substack_message))
         (promotional_threshold nan_detector) \<and>
   map fst (filter_newsletters no_match nan_detector [substack_message] True)
     = [substack_message]"
proof -
  have n: "promotional_threshold nan_detector = NaN"
    by (simp add: nan_detector_def NewsletterDetector_init_def)
  have f: "map fst (filter_newsletters no_match nan_detector [substack_message] True)
     = [substack_message]"
    by (simp add: filter_newsletters_eq substack_verdict_nan sort_reverse_def)
  show ?thesis
    using n f by (simp add: substack_verdict_nan py_lt_def)
qed

text \<open>
  \<^bold>\<open>C10\<close>.  The output of \<open>filter_newsletters\<close> is in descending order of quality
  score, and the sort is stable: for every score \<open>q\<close>, the accepted pairs with quality
  score \<open>q\<close> appear in the output in the order their messages have in the input.
\<close>

theorem filter_newsletters_sorted_stable:
  "sorted_wrt (\<lambda>a b. quality_score (snd a) \<ge> quality_score (snd b))
     (filter_newsletters rs self emails quality_only) \<and>
   filter (\<lambda>p. quality_score (snd p) = q) (filter_newsletters rs self emails quality_only) =
     map (\<lambda>email. (email, detect rs self email))
       (filter (\<lambda>email. (if quality_only then is_worth_reading (detect rs self email)
                          else is_newsletter (detect rs self email)) \<and>
                         quality_score (detect rs self email) = q) emails)"
proof -
  have s: "sorted_wrt (\<lambda>a b. quality_score (snd a) \<ge> quality_score (snd b))
     (filter_newsletters rs self emails quality_only)"
    unfolding filter_newsletters_eq by (rule sort_reverse_sorted)
  have t: "filter (\<lambda>p. quality_score (snd p) = q) (filter_newsletters rs self emails quality_only) =
     map (\<lambda>email. (email, detect rs self email))
       (filter (\<lambda>email. (if quality_only then is_worth_reading (detect rs self email)
                          else is_newsletter (detect rs self email)) \<and>
                         quality_score (detect rs self email) = q) emails)"
    unfolding filter_newsletters_eq sort_reverse_stable
    by (simp add: filter_map comp_def conj_commute)
  show ?thesis using s t by blast
qed

text \<open>
  \<^bold>\<open>C2\<close> (as the code has it).  For a message whose address, subject and body are
  strings (or \<^verbatim>\<open>None\<close>): when the domain that \<open>extract_domain\<close> reads from the lower-cased
  sender address is on the block-list, the promotional score is exactly 1, whatever the
  subject, the body, the headers and the display name are, in every configuration.  When
  moreover \<^verbatim>\<open>1.0 >= promotional_threshold\<close> is true, the message is flagged promotional,
  is not worth reading, and is absent from the output of \<open>filter_newsletters\<close> with
  \<open>quality_only = True\<close>.
\<close>

theorem blocklist_forces_promotional_score:
  "field_str (sender_email email) = Inr a \<Longrightarrow> field_str (subject email) = Inr s \<Longrightarrow>
   field_str (body_text email) = Inr b \<Longrightarrow>
   extract_domain (lower a) \<in> set blacklisted_domains \<Longrightarrow>
   promotional_score (detect rs self email) = 1 \<and>
   (py_ge 1 (promotional_threshold self) \<longrightarrow>
      is_promotional (detect rs self email) \<and>
      \<not> is_worth_reading (detect rs self email) \<and>
      (\<forall>v. (email, v) \<notin> set (filter_newsletters rs self emails True)))"
proof -
  assume r: "field_str (sender_email email) = Inr a" "field_str (subject email) = Inr s"
     "field_str (body_text email) = Inr b"
    and bl: "extract_domain (lower a) \<in> set blacklisted_domains"
  have p: "calculate_promotional_score rs email = (1, [''Blacklisted sender domain''])"
    using r bl by (simp add: calculate_promotional_score_read promo_rules_blacklisted)
  show ?thesis
  proof (cases "detect_try rs self email")
    case (Inr v)
    from detect_try_Inr [OF Inr] p
    have "detect rs self email = v" "promotional_score v = 1"
      "is_promotional v \<longleftrightarrow> py_ge 1 (promotional_threshold self)"
      "is_worth_reading v \<longrightarrow> py_not_ge 1 (promotional_threshold self)"
      by simp_all
    then show ?thesis
      by (auto simp: filter_newsletters_eq set_sort_reverse py_ge_def py_not_ge_def)
  next
    case (Inl ex)
    obtain msg where "ex = PyException msg" by (cases ex)
    with Inl show ?thesis
      by (auto simp: detect_try_Inl filter_newsletters_eq set_sort_reverse)
  qed
qed

theorem blocklist_forces_promotional_score_witness:
  "field_str (sender_email amazon_message) = Inr ''noreply@amazon.com'' \<and>
   field_str (subject amazon_message) = Inr ''50% off today only!'' \<and>
   field_str (body_text amazon_message) = Inr [] \<and>
   extract_domain (lower ''noreply@amazon.com'') \<in> set blacklisted_domains \<and>
   py_ge 1 (promotional_threshold default_detector) \<and>
   promotional_score (detect no_match default_detector amazon_message) = 1 \<and>
   is_promotional (detect no_match default_detector amazon_message) \<and>
   \<not> is_worth_reading (detect no_match default_detector amazon_message) \<and>
   filter_newsletters no_match default_detector [amazon_message] True = []"
proof -
  have a: "field_str (sender_email amazon_message) = Inr ''noreply@amazon.com''"
    and s: "field_str (subject amazon_message) = Inr ''50% off today only!''"
    and b: "field_str (body_text amazon_message) = Inr []"
    by (simp_all add: amazon_message_def blank_message_def field_str_def)
  have d: "extract_domain (lower ''noreply@amazon.com'') \<in> set blacklisted_domains"
    by code_simp
  have t: "py_ge 1 (promotional_threshold default_detector)"
    by code_simp
  note th = blocklist_forces_promotional_score
              [OF a s b d, of no_match default_detector "[amazon_message]"]
  have w: "\<not> is_worth_reading (detect no_match default_detector amazon_message)"
    using th t by blast
  have f: "filter_newsletters no_match default_detector [amazon_message] True = []"
    using w by (simp add: filter_newsletters_eq sort_reverse_def)
  show ?thesis
    using th a s b d t f by blast
qed

text \<open>Against C2 as stated: the thresholds are free parameters of the constructor, and
  with a promotional threshold of 1.5 a block-listed message that carries a
  \<^verbatim>\<open>List-Unsubscribe\<close> header is kept although its promotional score is 1.  Subject,
  display name and body are empty, so no pattern is searched.\<close>

theorem blocklist_rejection_counterexample:
  "field_str (sender_email amazon_unsubscribe_message) = Inr ''deals@amazon.com'' \<and>
   extract_domain (lower ''deals@amazon.com'') \<in> set blacklisted_domains \<and>
   promotional_score (detect no_match lenient_detector amazon_unsubscribe_message) = 1 \<and>
   is_worth_reading (detect no_match lenient_detector amazon_unsubscribe_message) \<and>
   map fst (filter_newsletters no_match lenient_detector [amazon_unsubscribe_message] True)
     = [amazon_unsubscribe_message]"
proof -
  have v: "detect no_match lenient_detector amazon_unsubscribe_message =
     \<lparr>is_newsletter = True, is_promotional = False, is_worth_reading = True,
      newsletter_confidence = fadd 0 (to_double (35/100)),
      promotional_score = 1,
      quality_score = 0,
      reasons = [''Has unsubscribe header'', ''Blacklisted sender domain'']\<rparr>"
    by code_simp
  have a: "field_str (sender_email amazon_unsubscribe_message) = Inr ''deals@amazon.com''"
    by (simp add: amazon_unsubscribe_message_def blank_message_def field_str_def)
  have d: "extract_domain (lower ''deals@amazon.com'') \<in> set blacklisted_domains"
    by code_simp
  have f: "map fst (filter_newsletters no_match lenient_detector [amazon_unsubscribe_message] True)
     = [amazon_unsubscribe_message]"
    by (simp add: filter_newsletters_eq v sort_reverse_def)
  show ?thesis
    using a d f by (simp add: v)
qed

text \<open>
  \<^bold>\<open>C8\<close> (as the code has it).  The sender rule cuts the whole lower-cased address at
  every \<^verbatim>\<open>@\<close>, \<^verbatim>\<open>.\<close>, \<^verbatim>\<open>-\<close> and \<^verbatim>\<open>_\<close>, the domain included.  For a message whose
  address, subject and body are strings, whose domain is not block-listed and whose local
  part is neither \<^verbatim>\<open>no-reply\<close> nor \<^verbatim>\<open>do-not-reply\<close>: the promotional score is what the
  subject, body and price rules make, capped at 1, of a score that starts at 0.30 exactly
  when one of the segments is a promotional sender token, and at 0 otherwise; and a local
  part that is a token is one of the segments.  The two hyphenated local parts are
  outside the statement.
\<close>

theorem sender_token_contribution:
  "field_str (sender_email email) = Inr a \<Longrightarrow> field_str (subject email) = Inr s \<Longrightarrow>
   field_str (body_text email) = Inr b \<Longrightarrow>
   extract_domain (lower a) \<notin> set blacklisted_domains \<Longrightarrow>
   local_part (lower a) \<notin> {''no-reply'', ''do-not-reply''} \<Longrightarrow>
   fst (calculate_promotional_score rs email) =
     min (fst (promo_price_step rs s (promo_content_step rs (take 2000 b)
                (promo_subject_step rs s
                  ((if \<exists>part\<in>set (sender_parts (lower a)). part \<in> set promotional_senders
                    then fadd 0 (to_double (3/10)) else 0), []))))) 1 \<and>
   (local_part (lower a) \<in> set promotional_senders \<longrightarrow>
      (\<exists>part\<in>set (sender_parts (lower a)). part \<in> set promotional_senders))"
proof -
  assume r: "field_str (sender_email email) = Inr a" "field_str (subject email) = Inr s"
      "field_str (body_text email) = Inr b"
    and nb: "extract_domain (lower a) \<notin> set blacklisted_domains"
    and carve: "local_part (lower a) \<notin> {''no-reply'', ''do-not-reply''}"
  let ?start = "(if \<exists>part\<in>set (sender_parts (lower a)). part \<in> set promotional_senders
                 then fadd 0 (to_double (3/10)) else 0, [] :: string list)"
  have "fst (promo_sender_step (lower a) (0, [])) = fst ?start"
    by (simp add: promo_sender_step_fst)
  then have "fst (promo_price_step rs s (promo_content_step rs (take 2000 b)
                (promo_subject_step rs s (promo_sender_step (lower a) (0, []))))) =
             fst (promo_price_step rs s (promo_content_step rs (take 2000 b)
                (promo_subject_step rs s ?start)))"
    by (rule promo_steps_fst_cong)
  then have one: "fst (calculate_promotional_score rs email) =
     min (fst (promo_price_step rs s (promo_content_step rs (take 2000 b)
                (promo_subject_step rs s ?start)))) 1"
    using r nb
    by (simp add: calculate_promotional_score_read promo_rules_not_blacklisted Let_def)
  have two: "local_part (lower a) \<in> set promotional_senders \<longrightarrow>
      (\<exists>part\<in>set (sender_parts (lower a)). part \<in> set promotional_senders)"
  proof
    assume t: "local_part (lower a) \<in> set promotional_senders"
    from plain_tokens [OF t carve]
    have "local_part (lower a) \<in> set (sender_parts (lower a))"
      by (rule local_part_is_a_part)
    with t show "\<exists>part\<in>set (sender_parts (lower a)). part \<in> set promotional_senders"
      by blast
  qed
  from one two show ?thesis by blast
qed

theorem sender_token_contribution_witness:
  "field_str (sender_email shop_message) = Inr ''jane@shop.io'' \<and>
   extract_domain (lower ''jane@shop.io'') \<notin> set blacklisted_domains \<and>
   local_part (lower ''jane@shop.io'') \<notin> {''no-reply'', ''do-not-reply''} \<and>
   (\<exists>part\<in>set (sender_parts (lower ''jane@shop.io'')). part \<in> set promotional_senders) \<and>
   fst (calculate_promotional_score no_match shop_message) = fadd 0 (to_double (3/10))"
proof -
  have a: "field_str (sender_email shop_message) = Inr ''jane@shop.io''"
    and s: "field_str (subject shop_message) = Inr []"
    and b: "field_str (body_text shop_message) = Inr []"
    by (simp_all add: shop_message_def blank_message_def field_str_def)
  have d: "extract_domain (lower ''jane@shop.io'') \<notin> set blacklisted_domains"
    by code_simp
  have "local_part (lower ''jane@shop.io'') = ''jane''"
    by code_simp
  then have l: "local_part (lower ''jane@shop.io'') \<notin> {''no-reply'', ''do-not-reply''}"
    by simp
  have p: "\<exists>part\<in>set (sender_parts (lower ''jane@shop.io'')). part \<in> set promotional_senders"
    by code_simp
  have c: "min (fst (promo_price_step no_match [] (promo_content_step no_match (take 2000 [])
                (promo_subject_step no_match [] (fadd 0 (to_double (3/10)), []))))) 1
           = fadd 0 (to_double (3/10))"
    by code_simp
  note th = sender_token_contribution [OF a s b d l, of no_match]
  from th have e: "fst (calculate_promotional_score no_match shop_message) =
     min (fst (promo_price_step no_match [] (promo_content_step no_match (take 2000 [])
                (promo_subject_step no_match []
                  ((if \<exists>part\<in>set (sender_parts (lower ''jane@shop.io'')).
                         part \<in> set promotional_senders
                    then fadd 0 (to_double (3/10)) else 0), []))))) 1"
    by (rule conjunct1)
  have i: "(if \<exists>part\<in>set (sender_parts (lower ''jane@shop.io'')). part \<in> set promotional_senders
            then fadd 0 (to_double (3/10)) else 0) = fadd 0 (to_double (3/10))"
    using p by (rule if_P)
  have f: "fst (calculate_promotional_score no_match shop_message) = fadd 0 (to_double (3/10))"
    using e c unfolding i by (rule trans)
  show ?thesis
    by (intro conjI) (fact a d l p f)+
qed

text \<open>Against C8 as stated: in \<^verbatim>\<open>jane@shop.io\<close> the local part \<^verbatim>\<open>jane\<close> is no token,
  the token \<^verbatim>\<open>shop\<close> occurs in the domain only, and the 0.30 is added.  Subject and body
  are empty, so no pattern is searched.\<close>

theorem sender_token_in_domain_counterexample:
  "field_str (sender_email shop_message) = Inr ''jane@shop.io'' \<and>
   local_part (lower ''jane@shop.io'') = ''jane'' \<and>
   ''jane'' \<notin> set promotional_senders \<and>
   calculate_promotional_score no_match shop_message =
     (fadd 0 (to_double (3/10)), [''Promotional sender: shop''])"
  by code_simp

text \<open>
  \<^bold>\<open>C9\<close> (as the code has it).  For a message whose address, subject and body are
  strings, the quality score is the platform term, then the subject term, then the
  length term, added in this order and clamped to the interval from 0 to 1.  The length
  term is computed from the number of words in the first 3000 characters of the body:
  0.15 is added above 500 words, 0.10 above 200, 0.20 is subtracted below 100, and
  nothing happens otherwise.
\<close>

theorem quality_length_term_of_first_3000:
  "field_str (sender_email email) = Inr a \<Longrightarrow> field_str (subject email) = Inr s \<Longrightarrow>
   field_str (body_text email) = Inr b \<Longrightarrow>
   fst (calculate_quality_score rs email) =
     (let n = length (split_words (take 3000 b));
          platform = (if extract_domain (lower a) \<in> set whitelisted_domains
                      then fadd 0 (to_double (4/10)) else 0);
          before = (if fst (check_patterns rs s quality_subject_patterns)
                    then fadd platform (fmul (to_double (15/100))
                           (of_nat (min (length (snd (check_patterns rs s
                                                       quality_subject_patterns))) 2)))
                    else platform)
      in max (min (if n > 500 then fadd before (to_double (15/100))
                   else if n > 200 then fadd before (to_double (1/10))
                   else if n < 100 then fsub before (to_double (2/10))
                   else before) 1) 0)"
proof -
  assume r: "field_str (sender_email email) = Inr a" "field_str (subject email) = Inr s"
    "field_str (body_text email) = Inr b"
  have "fst (calculate_quality_score rs email) =
        max (min (fst (quality_length_step (take 3000 b)
                 (quality_subject_step rs s
                   (quality_platform_step (extract_domain (lower a)) (0, []))))) 1) 0"
    by (simp only: calculate_quality_score_read [OF r] Let_def fst_conv)
  then show ?thesis
    by (simp only: quality_length_step_fst quality_subject_step_fst quality_platform_step_fst
          Let_def)
qed

theorem quality_length_term_of_first_3000_witness:
  "field_str (sender_email blank_message) = Inr [] \<and>
   field_str (subject blank_message) = Inr [] \<and>
   field_str (body_text blank_message) = Inr [] \<and>
   length (split_words (take 3000 [])) < 100 \<and>
   fsub 0 (to_double (2/10)) < 0 \<and>
   fst (calculate_quality_score no_match blank_message) = 0"
proof -
  have a: "field_str (sender_email blank_message) = Inr []"
    and s: "field_str (subject blank_message) = Inr []"
    and b: "field_str (body_text blank_message) = Inr []"
    by (simp_all add: blank_message_def field_str_def)
  have n: "length (split_words (take 3000 [])) < 100"
    by simp
  have m: "fsub 0 (to_double (2/10)) < 0"
    by code_simp
  have v: "(let n = length (split_words (take 3000 []));
          platform = (if extract_domain (lower []) \<in> set whitelisted_domains
                      then fadd 0 (to_double (4/10)) else 0);
          before = (if fst (check_patterns no_match [] quality_subject_patterns)
                    then fadd platform (fmul (to_double (15/100))
                           (of_nat (min (length (snd (check_patterns no_match []
                                                       quality_subject_patterns))) 2)))
                    else platform)
      in max (min (if n > 500 then fadd before (to_double (15/100))
                   else if n > 200 then fadd before (to_double (1/10))
                   else if n < 100 then fsub before (to_double (2/10))
                   else before) 1) 0) = (0 :: rat)"
    by code_simp
  have f: "fst (calculate_quality_score no_match blank_message) = 0"
    using quality_length_term_of_first_3000 [OF a s b, of no_match] v by (rule trans)
  show ?thesis
    by (intro conjI) (fact a s b n m f)+
qed

text \<open>Against C9 as stated: a body of 600 words whose first 300 words fill the first
  3000 characters gets the term for 300 words, 0.10, not the 0.15 of a body with more
  than 500 words.\<close>

theorem quality_word_count_counterexample:
  "field_str (body_text long_words_message) = Inr long_words_body \<and>
   length (split_words long_words_body) = 600 \<and>
   length (split_words (take 3000 long_words_body)) = 300 \<and>
   calculate_quality_score no_match long_words_message =
     (fadd 0 (to_double (1/10)), [''Decent content length''])"
proof -
  have a: "field_str (sender_email long_words_message) = Inr []"
    and s: "field_str (subject long_words_message) = Inr []"
    and b: "field_str (body_text long_words_message) = Inr long_words_body"
    by (simp_all add: long_words_message_def blank_message_def field_str_def)
  have d: "quality_platform_step (extract_domain (lower [])) (0, []) = (0, [])"
    by code_simp
  have p: "quality_subject_step no_match [] (0, []) = (0, [])"
    by code_simp
  have l: "quality_length_step (take 3000 long_words_body) (0, []) =
             (fadd 0 (to_double (1/10)), [''Decent content length''])"
    using long_words_truncated_count by (simp add: quality_length_step_def Let_def)
  have c: "max (min (fadd 0 (to_double (1/10))) 1) 0 = fadd 0 (to_double (1/10))"
    by code_simp
  have q: "calculate_quality_score no_match long_words_message =
     (fadd 0 (to_double (1/10)), [''Decent content length''])"
    by (simp only: calculate_quality_score_read [OF a s b] d p l Let_def fst_conv snd_conv c)
  show ?thesis
    by (intro conjI) (fact b long_words_full_count long_words_truncated_count q)+
qed




section \<open>Properties of the segmentation\<close>

text \<open>
  \<^bold>\<open>C5\<close> (as the code has it).  The constructor never fails: for every pair of
  arguments, also with an overlap that is not below the window size and with negative
  sizes, it returns a chunker.  An argument that is absent or zero is replaced by the
  configured default; every other value is stored as given.
\<close>

theorem TextChunker_init_accepts_everything:
  "\<exists>c. TextChunker_init cfg chunk_size_arg overlap_arg = Inr c \<and>
       chunk_size c = (case chunk_size_arg of None \<Rightarrow> CHUNK_SIZE cfg
                       | Some n \<Rightarrow> if n = 0 then CHUNK_SIZE cfg else n) \<and>
       overlap c = (case overlap_arg of None \<Rightarrow> CHUNK_OVERLAP cfg
                    | Some n \<Rightarrow> if n = 0 then CHUNK_OVERLAP cfg else n)"
  by (simp add: TextChunker_init_def or_default_def)

text \<open>Against C5 as stated: an overlap of 200 with a window size of 100, and two
  negative sizes, are both accepted.\<close>

theorem TextChunker_init_counterexample:
  "TextChunker_init \<lparr>CHUNK_SIZE = 1000, CHUNK_OVERLAP = 200\<rparr> (Some 100) (Some 200)
     = Inr \<lparr>chunk_size = 100, overlap = 200\<rparr> \<and>
   TextChunker_init \<lparr>CHUNK_SIZE = 1000, CHUNK_OVERLAP = 200\<rparr> (Some (- 5)) (Some (- 1))
     = Inr \<lparr>chunk_size = - 5, overlap = - 1\<rparr>"
  by (simp add: TextChunker_init_def or_default_def)

text \<open>
  \<^bold>\<open>C4\<close> (as the code has it).  Segmenting a document whose text is empty never fails.
  When the window size is not negative the result is one window: empty text, index 0,
  total 1.  The result is the empty list only when the window size is negative.
\<close>

theorem chunk_empty_text:
  "content_text content = [] \<Longrightarrow>
   chunk self content =
     (if 0 \<le> chunk_size self then [make_chunk content 1 0 []] else [])"
  by (simp add: chunk_def split_into_sentences_Nil chunk_texts_def)

theorem chunk_empty_text_witness:
  "content_text blank_content = [] \<and>
   chunk \<lparr>chunk_size = 1000, overlap = 200\<rparr> blank_content = [make_chunk blank_content 1 0 []] \<and>
   chunk \<lparr>chunk_size = - 1, overlap = 200\<rparr> blank_content = []"
  using chunk_empty_text [of blank_content "\<lparr>chunk_size = 1000, overlap = 200\<rparr>"]
        chunk_empty_text [of blank_content "\<lparr>chunk_size = - 1, overlap = 200\<rparr>"]
  by (simp add: blank_content_def)

text \<open>Against C4 as stated: with the default sizes the empty document gives one window
  whose text is empty, not the empty list.\<close>

theorem chunk_empty_text_counterexample:
  "content_text blank_content = [] \<and>
   map chunk_text (chunk \<lparr>chunk_size = 1000, overlap = 200\<rparr> blank_content) = [[]] \<and>
   chunk \<lparr>chunk_size = 1000, overlap = 200\<rparr> blank_content \<noteq> []"
  by (simp add: blank_content_def chunk_def make_chunk_def)

text \<open>
  \<^bold>\<open>C7\<close>.  The windows are a function of the document text, the source message id and
  the configuration alone: two documents that agree on text and source id give, under
  the same configuration, the same number of windows with the same id, text, index and
  total at every position.  The id at position \<open>i\<close> is the source message id, an
  underscore and the decimal \<open>i\<close>; the index is \<open>i\<close>; the total is the number of windows.
\<close>

theorem chunk_deterministic:
  "content_text d1 = content_text d2 \<Longrightarrow> source_email_id d1 = source_email_id d2 \<Longrightarrow>
   map (\<lambda>w. (chunk_id w, chunk_text w, chunk_index w, total_chunks w)) (chunk self d1) =
   map (\<lambda>w. (chunk_id w, chunk_text w, chunk_index w, total_chunks w)) (chunk self d2) \<and>
   map chunk_id (chunk self d1) =
     map (\<lambda>i. source_email_id d1 @ ''_'' @ str_nat i) [0..<length (chunk self d1)] \<and>
   map chunk_index (chunk self d1) = [0..<length (chunk self d1)] \<and>
   list_all (\<lambda>w. total_chunks w = length (chunk self d1)) (chunk self d1)"
  using chunk_projection_cong [of d1 d2 self] chunk_ids [of self d1] chunk_indices [of self d1]
        chunk_totals [of self d1]
  by simp

theorem chunk_deterministic_witness:
  "content_text (three_sentences\<lparr>title := ''A''\<rparr>) = content_text (three_sentences\<lparr>title := ''B''\<rparr>) \<and>
   source_email_id (three_sentences\<lparr>title := ''A''\<rparr>) = source_email_id (three_sentences\<lparr>title := ''B''\<rparr>) \<and>
   map (\<lambda>w. (chunk_id w, chunk_text w, chunk_index w, total_chunks w))
       (chunk small_chunker (three_sentences\<lparr>title := ''A''\<rparr>)) =
   map (\<lambda>w. (chunk_id w, chunk_text w, chunk_index w, total_chunks w))
       (chunk small_chunker (three_sentences\<lparr>title := ''B''\<rparr>)) \<and>
   map chunk_id (chunk small_chunker (three_sentences\<lparr>title := ''A''\<rparr>)) = [''m1_0'', ''m1_1'']"
proof -
  have a: "content_text (three_sentences\<lparr>title := ''A''\<rparr>) = content_text (three_sentences\<lparr>title := ''B''\<rparr>)"
    by simp
  have b: "source_email_id (three_sentences\<lparr>title := ''A''\<rparr>) = source_email_id (three_sentences\<lparr>title := ''B''\<rparr>)"
    by simp
  have c: "map chunk_id (chunk small_chunker (three_sentences\<lparr>title := ''A''\<rparr>)) = [''m1_0'', ''m1_1'']"
    by code_simp
  show ?thesis
    using chunk_deterministic [OF a b, of small_chunker] a b c by simp
qed

text \<open>
  \<^bold>\<open>C3\<close> (the code at a failing input).  Window size 10, overlap 5, text
  \<^verbatim>\<open>aa. bb. cccccccc.\<close>: the sentences have 3, 3 and 9 characters, none above 10.  The
  second window is the 5-character seed cut from the first window, a space, and the
  third sentence: 15 characters, above the window size.
\<close>

theorem chunk_window_exceeds_max:
  "overlap small_chunker < chunk_size small_chunker \<and>
   split_into_sentences (content_text three_sentences) = [''aa.'', ''bb.'', ''cccccccc.''] \<and>
   map chunk_text (chunk small_chunker three_sentences) = [''aa. bb.'', ''. bb. cccccccc.''] \<and>
   map (\<lambda>w. int (length (chunk_text w))) (chunk small_chunker three_sentences) = [7, 15] \<and>
   chunk_size small_chunker = 10"
  by code_simp

end
